theory Spec2Isabelle
  imports Complex_Main "HOL-Library.Word" "HOL-Library.Signed_Division"
begin

section \<open>Go values\<close>

text \<open>
  Go's \<open>int\<close> is taken at its 64-bit width: a two's complement word. Comparisons in
  the source are signed (\<open><s\<close>), and \<open>/\<close> and \<open>%\<close> truncate towards zero and raise a
  run-time panic on a zero divisor.
\<close>

type_synonym go_int = "64 word"

datatype panic = DivideByZero | NilDereference | NilMapAssignment
  | InvalidWriteHeaderCode

definition go_quo :: "go_int \<Rightarrow> go_int \<Rightarrow> panic + go_int" where
  "go_quo x y = (if y = 0 then Inl DivideByZero
                 else Inr (word_of_int (sint x sdiv sint y)))"

definition go_rem :: "go_int \<Rightarrow> go_int \<Rightarrow> panic + go_int" where
  "go_rem x y = (if y = 0 then Inl DivideByZero
                 else Inr (word_of_int (sint x smod sint y)))"

text \<open>
  \<open>interface{}\<close> holds any Go value. The model keeps the values that the repository
  itself stores in such a field or that a caller passes as data: nil, strings, integers,
  booleans, slices, and \<open>map[string]interface{}\<close>, where \<open>AMap None\<close> is the nil
  map. A map held in a response body is read when the body is written, so it appears
  there with its contents.
\<close>

datatype any = ANil | AString string | AInt go_int | ABool bool
  | AList "any list" | AMap "(string \<Rightarrow> any option) option"

section \<open>models.go: the response structures\<close>

text \<open>
  The fields of \<open>Response\<close> and \<open>ListResponse\<close> carry the prefixes \<open>R_\<close> and
  \<open>L_\<close>, since \<open>Message\<close>, \<open>Success\<close> and \<open>Data\<close> occur in more than one structure
  of the source. \<open>*Pagination\<close> is a pointer that may be nil; the library never writes
  through it, so it is held by value as an option.
\<close>

record Pagination =
  Page :: go_int
  PageSize :: go_int
  Total :: go_int
  TotalPages :: go_int

record Response =
  R_Success :: bool
  R_Data :: any
  R_Error :: any
  R_Message :: string

record ListResponse =
  L_Success :: bool
  L_Data :: any
  L_Pagination :: "Pagination option"

section \<open>models.go: ResponseError and the heap\<close>

text \<open>
  \<open>*ResponseError\<close> is a pointer and \<open>Details\<close> is a Go map, which is itself a
  reference: \<open>WithDetails\<close> writes through both and hands the same pointer back. The
  heap therefore has two stores, one of structures and one of maps, and a pointer is
  \<open>None\<close> (nil) or \<open>Some\<close> address. Every address holds a value, as in Go no
  pointer dangles; \<open>nextRef\<close> is the next address that an allocation takes.
\<close>

type_synonym ref = nat

record ResponseError =
  Code :: string
  Message :: string
  StatusCode :: go_int
  Details :: "ref option"

record heap =
  objs :: "ref \<Rightarrow> ResponseError"
  maps :: "ref \<Rightarrow> string \<Rightarrow> any option"
  nextRef :: ref

text \<open>The method \<open>Error\<close> of \<open>*ResponseError\<close>: \<open>fmt.Sprintf("[%s] %s", e.Code, e.Message)\<close>.\<close>

definition ResponseError_Error :: "heap \<Rightarrow> ref option \<Rightarrow> panic + string" where
  "ResponseError_Error h e =
     (case e of
        None \<Rightarrow> Inl NilDereference
      | Some p \<Rightarrow> Inr (''['' @ Code (objs h p) @ ''] '' @ Message (objs h p)))"

text \<open>
  A value of the interface \<open>error\<close> is the nil interface, a \<open>*ResponseError\<close> (which
  may be a nil pointer inside a non-nil interface), or a value of a type from outside
  the repository, of which the model keeps what its \<open>Error\<close> method returns.
\<close>

datatype error = NilError | ResponseErrorPtr "ref option" | OtherError string

definition err_Error :: "heap \<Rightarrow> error \<Rightarrow> panic + string" where
  "err_Error h err =
     (case err of
        NilError \<Rightarrow> Inl NilDereference
      | ResponseErrorPtr e \<Rightarrow> ResponseError_Error h e
      | OtherError s \<Rightarrow> Inr s)"

section \<open>The response-writing context\<close>

text \<open>
  \<open>*gin.Context\<close> belongs to the web framework. The emitters call two of its
  methods, \<open>JSON(code, obj)\<close> and \<open>Status(code)\<close>; the model of a context is the
  sequence of the calls completed on it so far, with their arguments. What a call does
  to the response is gin's and \<open>net/http\<close>'s:
  \<^item> the response writer holds a pending status, 200 at the start, and whether the
    header has been written; its \<open>WriteHeader(code)\<close> stores a code above 0 as the
    pending status while the header is unwritten and otherwise does nothing;
  \<^item> \<open>WriteHeaderNow\<close> writes the header with the pending status if it is unwritten,
    and \<open>net/http\<close> panics there on a status below 100 or above 999;
  \<^item> \<open>Status(code)\<close> is \<open>WriteHeader(code)\<close>; \<open>JSON(code, obj)\<close> is
    \<open>WriteHeader(code)\<close>, then the header is written, by \<open>WriteHeaderNow\<close> alone
    when the code allows no body (1xx, 204, 304) and by the write of the encoded body
    otherwise.
  The values of \<open>any\<close> all encode, so the encoder's failure is no case of the model.
\<close>

datatype body = ResponseBody Response | ListResponseBody ListResponse

datatype call = JSON go_int body | Status go_int

type_synonym Context = "call list"

record responseWriter =
  rw_status :: go_int
  rw_written :: bool

definition new_responseWriter :: responseWriter where
  "new_responseWriter = \<lparr>rw_status = 200, rw_written = False\<rparr>"

definition WriteHeader :: "responseWriter \<Rightarrow> go_int \<Rightarrow> responseWriter" where
  "WriteHeader w code =
     (if 0 <s code \<and> rw_status w \<noteq> code
      then (if rw_written w then w else w\<lparr>rw_status := code\<rparr>)
      else w)"

definition WriteHeaderNow :: "responseWriter \<Rightarrow> panic + responseWriter" where
  "WriteHeaderNow w =
     (if rw_written w then Inr w
      else if rw_status w <s 100 \<or> 999 <s rw_status w then Inl InvalidWriteHeaderCode
      else Inr (w\<lparr>rw_written := True\<rparr>))"

definition bodyAllowedForStatus :: "go_int \<Rightarrow> bool" where
  "bodyAllowedForStatus code =
     (if 100 \<le>s code \<and> code \<le>s 199 then False
      else if code = 204 then False
      else if code = 304 then False
      else True)"

text \<open>The response writer after a sequence of completed calls.\<close>

fun replay :: "responseWriter \<Rightarrow> call \<Rightarrow> responseWriter" where
  "replay w (Status code) = WriteHeader w code"
| "replay w (JSON code obj) = (WriteHeader w code)\<lparr>rw_written := True\<rparr>"

definition writer_of :: "Context \<Rightarrow> responseWriter" where
  "writer_of c = foldl replay new_responseWriter c"

definition c_JSON :: "Context \<Rightarrow> go_int \<Rightarrow> body \<Rightarrow> panic + Context" where
  "c_JSON c code obj =
     (case WriteHeaderNow (WriteHeader (writer_of c) code) of
        Inl e \<Rightarrow> Inl e
      | Inr w \<Rightarrow> Inr (c @ [JSON code obj]))"

definition c_Status :: "Context \<Rightarrow> go_int \<Rightarrow> Context" where
  "c_Status c code = c @ [Status code]"

text \<open>The status constants of \<open>net/http\<close> that the source names.\<close>

definition StatusOK :: go_int where "StatusOK = 200"
definition StatusCreated :: go_int where "StatusCreated = 201"
definition StatusAccepted :: go_int where "StatusAccepted = 202"
definition StatusNoContent :: go_int where "StatusNoContent = 204"
definition StatusBadRequest :: go_int where "StatusBadRequest = 400"
definition StatusUnauthorized :: go_int where "StatusUnauthorized = 401"
definition StatusForbidden :: go_int where "StatusForbidden = 403"
definition StatusNotFound :: go_int where "StatusNotFound = 404"
definition StatusConflict :: go_int where "StatusConflict = 409"
definition StatusInternalServerError :: go_int where "StatusInternalServerError = 500"

section \<open>Error codes\<close>

definition ErrCodeBadRequest :: string where "ErrCodeBadRequest = ''BAD_REQUEST''"
definition ErrCodeUnauthorized :: string where "ErrCodeUnauthorized = ''UNAUTHORIZED''"
definition ErrCodeForbidden :: string where "ErrCodeForbidden = ''FORBIDDEN''"
definition ErrCodeNotFound :: string where "ErrCodeNotFound = ''NOT_FOUND''"
definition ErrCodeConflict :: string where "ErrCodeConflict = ''CONFLICT''"
definition ErrCodeValidation :: string where "ErrCodeValidation = ''VALIDATION_ERROR''"
definition ErrCodeInternalServer :: string where
  "ErrCodeInternalServer = ''INTERNAL_SERVER_ERROR''"
definition ErrCodeDatabase :: string where "ErrCodeDatabase = ''DATABASE_ERROR''"
definition ErrCodeInvalidInput :: string where "ErrCodeInvalidInput = ''INVALID_INPUT''"
definition ErrCodeMissingHeader :: string where "ErrCodeMissingHeader = ''MISSING_HEADER''"
definition ErrCodeInvalidUUID :: string where "ErrCodeInvalidUUID = ''INVALID_UUID''"
definition ErrCodeDuplicateEntry :: string where
  "ErrCodeDuplicateEntry = ''DUPLICATE_ENTRY''"
definition ErrCodeForeignKeyViolation :: string where
  "ErrCodeForeignKeyViolation = ''FOREIGN_KEY_VIOLATION''"
definition ErrCodeInvalidBody :: string where "ErrCodeInvalidBody = ''INVALID_BODY''"
definition ErrUserAccountLocked :: string where "ErrUserAccountLocked = ''ACCOUNT_LOCKED''"
definition ErrUnauthorizedError :: string where
  "ErrUnauthorizedError = ''UNAUTHORIZED_ERROR''"

section \<open>The emitters\<close>

definition SuccessResponse :: "Context \<Rightarrow> go_int \<Rightarrow> any \<Rightarrow> string \<Rightarrow> panic + Context" where
  "SuccessResponse c statusCode data message =
     c_JSON c statusCode
       (ResponseBody \<lparr>R_Success = True, R_Data = data, R_Error = ANil,
                       R_Message = message\<rparr>)"

text \<open>
  \<open>ErrorResponse\<close> reads the heap and writes to the context. The type assertion
  succeeds for every \<open>*ResponseError\<close>, the nil pointer included, and the fields are
  then read through the pointer; every other value, the nil interface included, goes
  to the fallback, which calls \<open>err.Error()\<close>. The result is the heap after the
  call, and the context after it or the panic that ended it.
\<close>

definition ErrorResponse :: "heap \<Rightarrow> Context \<Rightarrow> error \<Rightarrow> heap \<times> (panic + Context)" where
  "ErrorResponse h c err =
     (case err of
        ResponseErrorPtr appErr \<Rightarrow>
          (case appErr of
             None \<Rightarrow> (h, Inl NilDereference)
           | Some p \<Rightarrow>
               (h, c_JSON c (StatusCode (objs h p))
                 (ResponseBody \<lparr>R_Success = False, R_Data = ANil,
                    R_Error = AMap (Some
                      [''code'' \<mapsto> AString (Code (objs h p)),
                       ''message'' \<mapsto> AString (Message (objs h p)),
                       ''details'' \<mapsto> AMap (map_option (maps h) (Details (objs h p)))]),
                    R_Message = []\<rparr>)))
      | _ \<Rightarrow>
          (case err_Error h err of
             Inl e \<Rightarrow> (h, Inl e)
           | Inr s \<Rightarrow>
               (h, c_JSON c StatusInternalServerError
                 (ResponseBody \<lparr>R_Success = False, R_Data = ANil,
                    R_Error = AMap (Some
                      [''code'' \<mapsto> AString ErrCodeInternalServer,
                       ''message'' \<mapsto> AString ''An unexpected error occurred'',
                       ''details'' \<mapsto> AMap (Some [''error'' \<mapsto> AString s])]),
                    R_Message = []\<rparr>))))"

definition CreatedResponse :: "Context \<Rightarrow> any \<Rightarrow> string \<Rightarrow> panic + Context" where
  "CreatedResponse c data message = SuccessResponse c StatusCreated data message"

definition UpdatedResponse :: "Context \<Rightarrow> any \<Rightarrow> string \<Rightarrow> panic + Context" where
  "UpdatedResponse c data message = SuccessResponse c StatusAccepted data message"

definition OKResponse :: "Context \<Rightarrow> any \<Rightarrow> string \<Rightarrow> panic + Context" where
  "OKResponse c data message = SuccessResponse c StatusOK data message"

definition NoContentResponse :: "Context \<Rightarrow> Context" where
  "NoContentResponse c = c_Status c StatusNoContent"

definition ListResponseWithPagination ::
  "Context \<Rightarrow> any \<Rightarrow> Pagination option \<Rightarrow> panic + Context" where
  "ListResponseWithPagination c data pagination =
     c_JSON c StatusOK
       (ListResponseBody \<lparr>L_Success = True, L_Data = data, L_Pagination = pagination\<rparr>)"

section \<open>CalculatePagination\<close>

text \<open>
  The two clamps of the source, then the quotient, then the increment when the
  remainder is not zero. Each division is a possible panic, so the result is a sum.
  The source returns a pointer to a fresh structure, which nothing writes to
  afterwards; the model returns the structure.
\<close>

definition CalculatePagination :: "go_int \<Rightarrow> go_int \<Rightarrow> go_int \<Rightarrow> panic + Pagination" where
  "CalculatePagination page pageSize total' =
     (let page = (if page <s 1 then 1 else page);
          pageSize = (if pageSize <s 1 then 20 else pageSize)
      in case go_quo total' pageSize of
           Inl e \<Rightarrow> Inl e
         | Inr totalPages \<Rightarrow>
             (case go_rem total' pageSize of
                Inl e \<Rightarrow> Inl e
              | Inr r \<Rightarrow>
                  (let totalPages = (if r \<noteq> 0 then totalPages + 1 else totalPages)
                   in Inr \<lparr>Page = page, PageSize = pageSize, Total = total',
                            TotalPages = totalPages\<rparr>)))"

section \<open>Constructing error values\<close>

text \<open>
  \<open>NewResponseError\<close> allocates a map (\<open>make\<close>) and a structure that refers to it,
  and returns the pointer to the structure. The two stores are addressed separately,
  so one fresh address serves for both.
\<close>

definition NewResponseError :: "heap \<Rightarrow> string \<Rightarrow> string \<Rightarrow> go_int \<Rightarrow> heap \<times> ref option" where
  "NewResponseError h code message statusCode =
     (let a = nextRef h
      in (h\<lparr>objs := (objs h)(a := \<lparr>Code = code, Message = message,
                                     StatusCode = statusCode, Details = Some a\<rparr>),
             maps := (maps h)(a := Map.empty),
             nextRef := Suc a\<rparr>,
          Some a))"

text \<open>
  \<open>e.Details[key] = value; return e\<close>: reading \<open>e.Details\<close> through a nil receiver
  and assigning to an entry of a nil map are the two run-time panics of the statement.
\<close>

definition WithDetails :: "heap \<Rightarrow> ref option \<Rightarrow> string \<Rightarrow> any \<Rightarrow> panic + heap \<times> ref option" where
  "WithDetails h e key val =
     (case e of
        None \<Rightarrow> Inl NilDereference
      | Some p \<Rightarrow>
          (case Details (objs h p) of
             None \<Rightarrow> Inl NilMapAssignment
           | Some m \<Rightarrow> Inr (h\<lparr>maps := (maps h)(m := (maps h m)(key \<mapsto> val))\<rparr>, Some p)))"

definition BadRequest :: "heap \<Rightarrow> string \<Rightarrow> heap \<times> ref option" where
  "BadRequest h message = NewResponseError h ErrCodeBadRequest message StatusBadRequest"

definition Unauthorized :: "heap \<Rightarrow> string \<Rightarrow> heap \<times> ref option" where
  "Unauthorized h message = NewResponseError h ErrCodeUnauthorized message StatusUnauthorized"

definition Forbidden :: "heap \<Rightarrow> string \<Rightarrow> heap \<times> ref option" where
  "Forbidden h message = NewResponseError h ErrCodeForbidden message StatusForbidden"

definition NotFound :: "heap \<Rightarrow> string \<Rightarrow> heap \<times> ref option" where
  "NotFound h resource =
     NewResponseError h ErrCodeNotFound (resource @ '' not found'') StatusNotFound"

definition Conflict :: "heap \<Rightarrow> string \<Rightarrow> heap \<times> ref option" where
  "Conflict h message = NewResponseError h ErrCodeConflict message StatusConflict"

definition ValidationError :: "heap \<Rightarrow> string \<Rightarrow> heap \<times> ref option" where
  "ValidationError h message = NewResponseError h ErrCodeValidation message StatusBadRequest"

definition InternalServerError :: "heap \<Rightarrow> string \<Rightarrow> heap \<times> ref option" where
  "InternalServerError h message =
     NewResponseError h ErrCodeInternalServer message StatusInternalServerError"

text \<open>
  In \<open>DatabaseError\<close> the calls run from left to right: \<open>NewResponseError\<close>, then
  \<open>err.Error()\<close>, then \<open>WithDetails\<close>.
\<close>

definition DatabaseError :: "heap \<Rightarrow> error \<Rightarrow> panic + heap \<times> ref option" where
  "DatabaseError h err =
     (case NewResponseError h ErrCodeDatabase ''Database operation failed''
             StatusInternalServerError of
        (h1, e) \<Rightarrow>
          (case err_Error h1 err of
             Inl p \<Rightarrow> Inl p
           | Inr s \<Rightarrow> WithDetails h1 e ''error'' (AString s)))"

definition InvalidInput :: "heap \<Rightarrow> string \<Rightarrow> string \<Rightarrow> heap \<times> ref option" where
  "InvalidInput h field reason =
     NewResponseError h ErrCodeInvalidInput
       (''Invalid input for field '' @ [CHR 0x27] @ field @ [CHR 0x27] @ '': '' @ reason)
       StatusBadRequest"

definition MissingHeader :: "heap \<Rightarrow> string \<Rightarrow> heap \<times> ref option" where
  "MissingHeader h header =
     NewResponseError h ErrCodeMissingHeader (''Missing required header: '' @ header)
       StatusBadRequest"

definition InvalidUUID :: "heap \<Rightarrow> string \<Rightarrow> heap \<times> ref option" where
  "InvalidUUID h field =
     NewResponseError h ErrCodeInvalidUUID
       (''Invalid UUID format for field '' @ [CHR 0x27] @ field @ [CHR 0x27])
       StatusBadRequest"

definition DuplicateEntry :: "heap \<Rightarrow> string \<Rightarrow> heap \<times> ref option" where
  "DuplicateEntry h resource =
     NewResponseError h ErrCodeDuplicateEntry (resource @ '' already exists'') StatusConflict"

definition ForeignKeyViolation :: "heap \<Rightarrow> string \<Rightarrow> heap \<times> ref option" where
  "ForeignKeyViolation h message =
     NewResponseError h ErrCodeForeignKeyViolation message StatusBadRequest"

definition UnauthorizedError :: "heap \<Rightarrow> string \<Rightarrow> heap \<times> ref option" where
  "UnauthorizedError h message =
     NewResponseError h ErrCodeUnauthorized message StatusUnauthorized"

definition VersionExistsError :: "heap \<Rightarrow> string \<Rightarrow> heap \<times> ref option" where
  "VersionExistsError h versionNumber =
     NewResponseError h ErrCodeConflict (''Version '' @ versionNumber @ '' already exists'')
       StatusConflict"

section \<open>Observations and caller-side expressions used in the statements\<close>

text \<open>
  What a caller sees of an error value through its pointer: code, status, message and
  the contents of the details map (\<open>None\<close> for the nil map); nothing through nil.
\<close>

definition read_error ::
  "heap \<Rightarrow> ref option \<Rightarrow> (string \<times> go_int \<times> string \<times> (string \<Rightarrow> any option) option) option" where
  "read_error h e =
     (case e of
        None \<Rightarrow> None
      | Some p \<Rightarrow> Some (Code (objs h p), StatusCode (objs h p), Message (objs h p),
                        map_option (maps h) (Details (objs h p))))"

definition details_initialised :: "heap \<Rightarrow> ref option \<Rightarrow> bool" where
  "details_initialised h e =
     (case e of None \<Rightarrow> False | Some p \<Rightarrow> Details (objs h p) \<noteq> None)"

text \<open>
  The caller's expression \<open>&ResponseError{}\<close>: a fresh structure holding the zero
  value of every field, the nil map among them.
\<close>

definition zeroResponseError :: ResponseError where
  "zeroResponseError = \<lparr>Code = [], Message = [], StatusCode = 0, Details = None\<rparr>"

definition new_zero_ResponseError :: "heap \<Rightarrow> heap \<times> ref option" where
  "new_zero_ResponseError h =
     (let a = nextRef h
      in (h\<lparr>objs := (objs h)(a := zeroResponseError), nextRef := Suc a\<rparr>, Some a))"

definition empty_heap :: heap where
  "empty_heap = \<lparr>objs = (\<lambda>_. zeroResponseError), maps = (\<lambda>_. Map.empty), nextRef = 0\<rparr>"

text \<open>The caller's chain \<open>e.WithDetails(k1, v1).WithDetails(k2, v2)\<close> and so on.\<close>

fun WithDetails_chain ::
  "heap \<Rightarrow> ref option \<Rightarrow> (string \<times> any) list \<Rightarrow> panic + heap \<times> ref option" where
  "WithDetails_chain h e [] = Inr (h, e)"
| "WithDetails_chain h e ((k, v) # kvs) =
     (case WithDetails h e k v of
        Inl p \<Rightarrow> Inl p
      | Inr (h', e') \<Rightarrow> WithDetails_chain h' e' kvs)"

text \<open>
  An error value refers into the allocated part of the heap when it is no pointer or
  a pointer below \<open>nextRef\<close>.
\<close>

definition allocated :: "heap \<Rightarrow> error \<Rightarrow> bool" where
  "allocated h err =
     (case err of ResponseErrorPtr (Some p) \<Rightarrow> p < nextRef h | _ \<Rightarrow> True)"

text \<open>The same observations on what a constructor returns: the heap and the pointer.\<close>

definition made ::
  "heap \<times> ref option \<Rightarrow> (string \<times> go_int \<times> string \<times> (string \<Rightarrow> any option) option) option" where
  "made r = read_error (fst r) (snd r)"

definition made_initialised :: "heap \<times> ref option \<Rightarrow> bool" where
  "made_initialised r = details_initialised (fst r) (snd r)"

text \<open>
  What the client has received after the calls of a context: the status of the header,
  once it is written, and the bodies, which are those of the \<open>JSON\<close> calls whose code
  allows one.
\<close>

definition sent_status :: "Context \<Rightarrow> go_int option" where
  "sent_status c =
     (if rw_written (writer_of c) then Some (rw_status (writer_of c)) else None)"

fun sent_bodies :: "Context \<Rightarrow> body list" where
  "sent_bodies [] = []"
| "sent_bodies (Status code # cs) = sent_bodies cs"
| "sent_bodies (JSON code obj # cs) =
     (if bodyAllowedForStatus code then obj # sent_bodies cs else sent_bodies cs)"

text \<open>Whether \<open>JSON(code, obj)\<close> on the context panics at the write of the header.\<close>

definition header_panics :: "Context \<Rightarrow> go_int \<Rightarrow> bool" where
  "header_panics c code =
     (case WriteHeaderNow (WriteHeader (writer_of c) code) of
        Inl e \<Rightarrow> True
      | Inr w \<Rightarrow> False)"

text \<open>The status that \<open>ErrorResponse\<close> passes to \<open>JSON\<close> for a non-nil error.\<close>

definition response_status :: "heap \<Rightarrow> error \<Rightarrow> go_int" where
  "response_status h err =
     (case err of
        ResponseErrorPtr (Some p) \<Rightarrow> StatusCode (objs h p)
      | _ \<Rightarrow> StatusInternalServerError)"

text \<open>The two nil values of the interface \<open>error\<close>: the nil interface and the nil pointer.\<close>

definition nil_error :: "error \<Rightarrow> bool" where
  "nil_error err = (case err of NilError \<Rightarrow> True | ResponseErrorPtr None \<Rightarrow> True | _ \<Rightarrow> False)"

section \<open>Unfolding rules\<close>

lemmas http_status_defs =
  StatusOK_def StatusCreated_def StatusAccepted_def StatusNoContent_def
  StatusBadRequest_def StatusUnauthorized_def StatusForbidden_def StatusNotFound_def
  StatusConflict_def StatusInternalServerError_def

lemmas err_code_defs =
  ErrCodeBadRequest_def ErrCodeUnauthorized_def ErrCodeForbidden_def ErrCodeNotFound_def
  ErrCodeConflict_def ErrCodeValidation_def ErrCodeInternalServer_def ErrCodeDatabase_def
  ErrCodeInvalidInput_def ErrCodeMissingHeader_def ErrCodeInvalidUUID_def
  ErrCodeDuplicateEntry_def ErrCodeForeignKeyViolation_def

section \<open>Truncated division on integers and on words\<close>

lemma sint_in_range: "- (2 ^ 63) \<le> sint (x :: go_int) \<and> sint x < 2 ^ 63"
  using sint_range_size [of x] by (simp add: word_size)

lemma sint_word_of_int_64:
  "- (2 ^ 63) \<le> k \<Longrightarrow> k < 2 ^ 63 \<Longrightarrow> sint (word_of_int k :: go_int) = k"
  by (simp add: sint_sbintrunc' signed_take_bit_int_eq_self)

lemma sdiv_pos: "0 \<le> t \<Longrightarrow> 1 \<le> p \<Longrightarrow> (t::int) sdiv p = t div p"
  by (simp add: signed_divide_int_def sgn_if)

lemma sdiv_neg: "t < 0 \<Longrightarrow> 1 \<le> p \<Longrightarrow> (t::int) sdiv p = - ((- t) div p)"
  by (simp add: signed_divide_int_def sgn_if)

lemma smod_pos: "0 \<le> t \<Longrightarrow> 1 \<le> p \<Longrightarrow> (t::int) smod p = t mod p"
  by (cases "t = 0") (simp_all add: smod_int_alt_def sgn_if)

lemma smod_neg: "t < 0 \<Longrightarrow> 1 \<le> p \<Longrightarrow> (t::int) smod p = - ((- t) mod p)"
  by (simp add: smod_int_alt_def sgn_if)

lemma smod_zero_iff: "1 \<le> p \<Longrightarrow> ((t::int) smod p = 0) = (t mod p = 0)"
  by (cases "0 \<le> t") (simp_all add: smod_pos smod_neg mod_eq_0_iff_dvd)

lemma ceil_pos: "1 \<le> p \<Longrightarrow> \<lceil>real_of_int t / real_of_int p\<rceil> = t div p + (if t mod p \<noteq> 0 then 1 else 0)"
  by (simp add: ceiling_divide_eq_div zdiv_zminus1_eq_if)

lemma div_le_self_int: "0 \<le> t \<Longrightarrow> 1 \<le> p \<Longrightarrow> (t::int) div p \<le> t"
  by (metis div_by_1 zdiv_mono2 zero_less_one)

lemma div_less_self_int:
  assumes "0 \<le> t" "1 \<le> p" "t mod p \<noteq> 0" shows "(t::int) div p < t"
proof -
  have "p \<noteq> 1" using assms by auto
  then have "2 \<le> p" using assms by simp
  have "0 < t" using assms by (cases "t = 0") simp_all
  have "t div p \<le> t div 2" using \<open>2 \<le> p\<close> \<open>0 \<le> t\<close> by (simp add: zdiv_mono2)
  also have "\<dots> < t" using \<open>0 < t\<close> by simp
  finally show ?thesis .
qed

lemma quo_range:
  assumes "1 \<le> p" "- (2 ^ 63) \<le> t" "t < 2 ^ 63"
  shows "- (2 ^ 63) \<le> (t::int) sdiv p \<and> t sdiv p < 2 ^ 63"
proof (cases "0 \<le> t")
  case True
  then have "0 \<le> t div p" "t div p \<le> t" using assms by (simp_all add: div_le_self_int pos_imp_zdiv_nonneg_iff)
  then show ?thesis using True assms by (simp add: sdiv_pos)
next
  case False
  then have "0 \<le> (- t) div p" "(- t) div p \<le> - t" using assms by (simp_all add: div_le_self_int pos_imp_zdiv_nonneg_iff)
  then show ?thesis using False assms by (simp add: sdiv_neg)
qed

lemma quo_incr_range:
  assumes "1 \<le> p" "- (2 ^ 63) \<le> t" "t < 2 ^ 63" "t smod p \<noteq> 0"
  shows "- (2 ^ 63) \<le> (t::int) sdiv p + 1 \<and> t sdiv p + 1 < 2 ^ 63"
proof (cases "0 \<le> t")
  case True
  then have "t mod p \<noteq> 0" using assms by (simp add: smod_pos)
  then have "0 \<le> t div p" "t div p < t" using True assms by (simp_all add: div_less_self_int pos_imp_zdiv_nonneg_iff)
  then show ?thesis using True assms by (simp add: sdiv_pos)
next
  case False
  then have "0 \<le> (- t) div p" "(- t) div p \<le> - t" using assms by (simp_all add: div_le_self_int pos_imp_zdiv_nonneg_iff)
  then show ?thesis using False assms by (simp add: sdiv_neg)
qed

lemma rem_range:
  assumes "1 \<le> p" "p < 2 ^ 63"
  shows "- (2 ^ 63) \<le> (t::int) smod p \<and> t smod p < 2 ^ 63"
proof (cases "0 \<le> t")
  case True
  have a: "0 \<le> t mod p" and b: "t mod p < p" using assms by simp_all
  have "t smod p = t mod p" using True assms by (simp add: smod_pos)
  with a b assms show ?thesis by linarith
next
  case False
  have a: "0 \<le> (- t) mod p" and b: "(- t) mod p < p" using assms by simp_all
  have "t smod p = - ((- t) mod p)" using False assms by (simp add: smod_neg)
  with a b assms show ?thesis by linarith
qed

lemma go_quo_sint:
  assumes "1 \<le> sint y"
  shows "\<exists>q. go_quo x y = Inr q \<and> sint q = sint x sdiv sint y"
proof -
  have "y \<noteq> 0" using assms by auto
  moreover have "sint (word_of_int (sint x sdiv sint y) :: go_int) = sint x sdiv sint y"
    using quo_range [OF assms, of "sint x"] sint_in_range [of x]
    by (simp add: sint_word_of_int_64)
  ultimately show ?thesis by (simp add: go_quo_def)
qed

lemma go_rem_sint:
  assumes "1 \<le> sint y"
  shows "\<exists>r. go_rem x y = Inr r \<and> sint r = sint x smod sint y"
proof -
  have "y \<noteq> 0" using assms by auto
  moreover have "sint (word_of_int (sint x smod sint y) :: go_int) = sint x smod sint y"
    using rem_range [OF assms, of "sint x"] sint_in_range [of y]
    by (simp add: sint_word_of_int_64)
  ultimately show ?thesis by (simp add: go_rem_def)
qed

lemma sint_incr:
  assumes "sint (q :: go_int) + 1 < 2 ^ 63"
  shows "sint (q + 1) = sint q + 1"
proof -
  have "q + 1 = word_of_int (sint q + 1)" by simp
  moreover have "- (2 ^ 63) \<le> sint q + 1" using sint_in_range [of q] by linarith
  ultimately show ?thesis using assms sint_word_of_int_64 [of "sint q + 1"] by simp
qed

lemma sint_zero_iff: "(r = (0 :: go_int)) = (sint r = 0)"
  by (simp add: signed_eq_0_iff)


lemma clamped_pageSize_pos: "1 \<le> sint (if pageSize <s 1 then 20 else pageSize :: go_int)"
  by (simp add: word_sless_alt)

lemma CalculatePagination_sint:
  "\<exists>tp. CalculatePagination page pageSize total' =
          Inr \<lparr>Page = (if page <s 1 then 1 else page),
               PageSize = (if pageSize <s 1 then 20 else pageSize), Total = total',
               TotalPages = tp\<rparr>
     \<and> sint tp = sint total' sdiv sint (if pageSize <s 1 then 20 else pageSize)
          + (if sint total' smod sint (if pageSize <s 1 then 20 else pageSize) \<noteq> 0
             then 1 else 0)"
proof -
  let ?ps = "if pageSize <s 1 then 20 else pageSize"
  have pos: "1 \<le> sint ?ps" by (rule clamped_pageSize_pos)
  obtain q where q: "go_quo total' ?ps = Inr q" "sint q = sint total' sdiv sint ?ps"
    using go_quo_sint [OF pos] by blast
  obtain r where r: "go_rem total' ?ps = Inr r" "sint r = sint total' smod sint ?ps"
    using go_rem_sint [OF pos] by blast
  show ?thesis
  proof (cases "r = 0")
    case True
    then show ?thesis using q r
      by (simp add: CalculatePagination_def)
  next
    case False
    then have nz: "sint total' smod sint ?ps \<noteq> 0" using r by (simp add: sint_zero_iff)
    have "sint q + 1 < 2 ^ 63"
      using quo_incr_range [OF pos _ _ nz] sint_in_range [of total'] q by simp
    then have "sint (q + 1) = sint q + 1" by (rule sint_incr)
    then show ?thesis using q r False nz
      by (simp add: CalculatePagination_def)
  qed
qed

section \<open>Pagination\<close>

text \<open>
  C5. For every \<open>(page, pageSize, total)\<close>, \<open>CalculatePagination\<close> returns a
  Pagination with \<open>page \<ge> 1\<close> and \<open>page_size \<ge> 1\<close>: a non-positive page is replaced by
  1, a non-positive page size by 20, and positive inputs pass through unchanged.
\<close>

theorem C5_pagination_clamps:
  "\<exists>pg. CalculatePagination page pageSize total' = Inr pg
     \<and> 1 \<le>s Page pg \<and> 1 \<le>s PageSize pg
     \<and> Page pg = (if page \<le>s 0 then 1 else page)
     \<and> PageSize pg = (if pageSize \<le>s 0 then 20 else pageSize)"
proof -
  obtain tp where "CalculatePagination page pageSize total' =
      Inr \<lparr>Page = (if page <s 1 then 1 else page),
           PageSize = (if pageSize <s 1 then 20 else pageSize), Total = total',
           TotalPages = tp\<rparr>"
    using CalculatePagination_sint by blast
  then show ?thesis
    by (auto simp add: word_sless_alt word_sle_eq)
qed

text \<open>
  C2, as stated: for all inputs with \<open>pageSize > 0\<close>, \<open>total_pages\<close> is the exact
  ceiling of \<open>total / pageSize\<close>. It fails for a negative total that the page size
  does not divide: Go's quotient truncates towards zero and the increment is then
  added on top, so \<open>(1, 2, -5)\<close> gives \<open>-1\<close>, while the ceiling of \<open>-5/2\<close> is \<open>-2\<close>.
\<close>

theorem C2_negative_total_counterexample:
  "0 <s (2 :: go_int) \<and>
   CalculatePagination 1 2 (- 5) =
     Inr \<lparr>Page = 1, PageSize = 2, Total = - 5, TotalPages = - 1\<rparr> \<and>
   sint (- 1 :: go_int) \<noteq>
     \<lceil>real_of_int (sint (- 5 :: go_int)) / real_of_int (sint (2 :: go_int))\<rceil>"
proof -
  have "\<lceil>real_of_int (- 5) / real_of_int 2\<rceil> = (- 2 :: int)"
    by (simp add: ceiling_divide_eq_div)
  then show ?thesis
    by (simp add: CalculatePagination_def go_quo_def go_rem_def word_sless_alt)
qed

text \<open>
  C2, amended: for all inputs with \<open>pageSize > 0\<close> and \<open>total \<ge> 0\<close>,
  \<open>CalculatePagination\<close> returns a Pagination whose \<open>total_pages\<close> is the exact
  ceiling of \<open>total / pageSize\<close>, whose \<open>page\<close> is the clamped page, and whose
  \<open>page_size\<close> and \<open>total\<close> are the inputs.
\<close>

theorem C2_total_pages_ceiling:
  assumes "0 <s pageSize" and "0 \<le>s total'"
  shows "\<exists>pg. CalculatePagination page pageSize total' = Inr pg
     \<and> sint (TotalPages pg) = \<lceil>real_of_int (sint total') / real_of_int (sint pageSize)\<rceil>
     \<and> Page pg = (if page <s 1 then 1 else page)
     \<and> PageSize pg = pageSize \<and> Total pg = total'"
proof -
  have ps: "(if pageSize <s 1 then 20 else pageSize) = pageSize" "1 \<le> sint pageSize"
    using assms(1) by (simp_all add: word_sless_alt)
  have t: "0 \<le> sint total'" using assms(2) by (simp add: word_sle_eq)
  obtain tp where tp: "CalculatePagination page pageSize total' =
      Inr \<lparr>Page = (if page <s 1 then 1 else page),
           PageSize = (if pageSize <s 1 then 20 else pageSize), Total = total',
           TotalPages = tp\<rparr>"
    "sint tp = sint total' sdiv sint (if pageSize <s 1 then 20 else pageSize)
          + (if sint total' smod sint (if pageSize <s 1 then 20 else pageSize) \<noteq> 0
             then 1 else 0)"
    using CalculatePagination_sint by blast
  have "sint tp = sint total' div sint pageSize
          + (if sint total' mod sint pageSize \<noteq> 0 then 1 else 0)"
    using tp(2) ps t by (simp add: sdiv_pos smod_pos)
  also have "\<dots> = \<lceil>real_of_int (sint total') / real_of_int (sint pageSize)\<rceil>"
    using ps(2) by (simp only: ceil_pos)
  finally show ?thesis using tp(1) ps(1) by simp
qed

theorem C2_total_pages_ceiling_witness:
  "0 <s (10 :: go_int) \<and> 0 \<le>s (95 :: go_int) \<and>
   (\<exists>pg. CalculatePagination 2 10 95 = Inr pg
     \<and> sint (TotalPages pg) =
         \<lceil>real_of_int (sint (95 :: go_int)) / real_of_int (sint (10 :: go_int))\<rceil>
     \<and> Page pg = (if (2 :: go_int) <s 1 then 1 else 2)
     \<and> PageSize pg = 10 \<and> Total pg = 95)"
proof -
  have a: "0 <s (10 :: go_int)" by (simp add: word_sless_alt)
  have b: "0 \<le>s (95 :: go_int)" by (simp add: word_sle_eq)
  show ?thesis using a b C2_total_pages_ceiling [OF a b, of 2] by simp
qed

text \<open>
  C3, as stated: for every total, \<open>total_pages\<close> is the mathematical floor of
  \<open>total / pageSize\<close> plus 1 if \<open>total mod pageSize\<close> is nonzero, and a negative
  total gives a negative or zero page count. At \<open>(1, 20, -1)\<close> the code returns
  \<open>total_pages = 1\<close>: the floor formula gives \<open>-1 + 1 = 0\<close>, and 1 is positive.
\<close>

theorem C3_small_negative_total_counterexample:
  "CalculatePagination 1 20 (- 1) =
     Inr \<lparr>Page = 1, PageSize = 20, Total = - 1, TotalPages = 1\<rparr> \<and>
   sint (1 :: go_int) \<noteq>
     \<lfloor>real_of_int (sint (- 1 :: go_int)) / real_of_int (sint (20 :: go_int))\<rfloor>
       + (if sint (- 1 :: go_int) mod sint (20 :: go_int) \<noteq> 0 then 1 else 0) \<and>
   \<not> sint (1 :: go_int) \<le> 0"
proof -
  have "\<lfloor>real_of_int (- 1) / real_of_int 20\<rfloor> = (- 1 :: int)"
    by (simp add: floor_divide_of_int_eq [symmetric])
  then show ?thesis
    by (simp add: CalculatePagination_def go_quo_def go_rem_def word_sless_alt
        signed_divide_int_def smod_int_alt_def)
qed

text \<open>
  C3, amended: the total is not clamped, and for every total \<open>total_pages\<close> is the
  quotient of \<open>total\<close> by the clamped page size, truncated towards zero, plus 1 if the
  page size does not divide the total. For \<open>total \<ge> 0\<close> the quotient is
  \<open>floor(total / pageSize)\<close> and the page count is not negative; for a negative
  total it is \<open>- floor(-total / pageSize)\<close> and the page count is at most 1.
\<close>

theorem C3_total_pages_truncated:
  "\<exists>pg. CalculatePagination page pageSize total' = Inr pg
     \<and> Total pg = total'
     \<and> PageSize pg = (if pageSize <s 1 then 20 else pageSize)
     \<and> sint (TotalPages pg) =
          (if 0 \<le> sint total'
           then \<lfloor>real_of_int (sint total') / real_of_int (sint (PageSize pg))\<rfloor>
           else - \<lfloor>real_of_int (- sint total') / real_of_int (sint (PageSize pg))\<rfloor>)
          + (if sint total' mod sint (PageSize pg) \<noteq> 0 then 1 else 0)
     \<and> (if sint total' < 0 then sint (TotalPages pg) \<le> 1 else 0 \<le> sint (TotalPages pg))"
proof -
  let ?ps = "if pageSize <s 1 then 20 else pageSize"
  have pos: "1 \<le> sint ?ps" by (rule clamped_pageSize_pos)
  obtain tp where tp: "CalculatePagination page pageSize total' =
      Inr \<lparr>Page = (if page <s 1 then 1 else page), PageSize = ?ps, Total = total',
           TotalPages = tp\<rparr>"
    "sint tp = sint total' sdiv sint ?ps
          + (if sint total' smod sint ?ps \<noteq> 0 then 1 else 0)"
    using CalculatePagination_sint by blast
  have fl: "\<And>n. \<lfloor>real_of_int n / real_of_int (sint ?ps)\<rfloor> = n div sint ?ps"
    by (simp only: floor_divide_of_int_eq)
  have val: "sint tp =
          (if 0 \<le> sint total'
           then \<lfloor>real_of_int (sint total') / real_of_int (sint ?ps)\<rfloor>
           else - \<lfloor>real_of_int (- sint total') / real_of_int (sint ?ps)\<rfloor>)
          + (if sint total' mod sint ?ps \<noteq> 0 then 1 else 0)"
    unfolding fl tp(2) using pos
    by (cases "0 \<le> sint total'") (simp_all add: sdiv_pos sdiv_neg smod_zero_iff)
  have sign: "if sint total' < 0 then sint tp \<le> 1 else 0 \<le> sint tp"
  proof (cases "sint total' < 0")
    case True
    have "0 \<le> (- sint total') div sint ?ps"
      using True pos by (simp add: pos_imp_zdiv_nonneg_iff)
    then show ?thesis using True pos tp(2) by (simp add: sdiv_neg)
  next
    case False
    have "0 \<le> sint total' div sint ?ps"
      using False pos by (simp add: pos_imp_zdiv_nonneg_iff)
    then show ?thesis using False pos tp(2) by (simp add: sdiv_pos)
  qed
  define pg where "pg = \<lparr>Page = (if page <s 1 then 1 else page), PageSize = ?ps,
    Total = total', TotalPages = tp\<rparr>"
  have sel: "Total pg = total'" "PageSize pg = ?ps" "TotalPages pg = tp"
    by (simp_all add: pg_def)
  have "CalculatePagination page pageSize total' = Inr pg"
    using tp(1) by (simp only: pg_def)
  moreover note val sign
  ultimately show ?thesis
    unfolding sel [symmetric] by blast
qed

section \<open>The response writer\<close>

lemma writer_of_snoc: "writer_of (c @ [x]) = replay (writer_of c) x"
  by (simp add: writer_of_def)

lemma writer_of_Nil: "writer_of [] = new_responseWriter"
  by (simp add: writer_of_def)

lemma header_panics_eq:
  "header_panics c code =
     (\<not> rw_written (writer_of c) \<and>
      (if 0 <s code then code <s 100 \<or> 999 <s code
       else rw_status (writer_of c) <s 100 \<or> 999 <s rw_status (writer_of c)))"
  by (auto simp add: header_panics_def WriteHeaderNow_def WriteHeader_def)

lemma header_panics_fresh:
  "header_panics [] code = (0 <s code \<and> (code <s 100 \<or> 999 <s code))"
  by (simp add: header_panics_eq writer_of_Nil new_responseWriter_def word_sless_alt)

lemma c_JSON_eq:
  "c_JSON c code obj =
     (if header_panics c code then Inl InvalidWriteHeaderCode else Inr (c @ [JSON code obj]))"
  by (simp add: c_JSON_def header_panics_def WriteHeaderNow_def split: sum.splits)

lemma fixed_status_accepted:
  "\<not> header_panics c 200" "\<not> header_panics c 201" "\<not> header_panics c 202"
  "\<not> header_panics c 500"
  by (simp_all add: header_panics_eq word_sless_alt)

lemma valid_status_accepted:
  "100 \<le>s code \<Longrightarrow> code \<le>s 999 \<Longrightarrow> \<not> header_panics c code"
  by (auto simp add: header_panics_eq word_sless_alt word_sle_eq)

lemma sent_bodies_append: "sent_bodies (c @ d) = sent_bodies c @ sent_bodies d"
  by (induction c rule: sent_bodies.induct) simp_all

lemma sent_bodies_JSON:
  "sent_bodies (c @ [JSON code obj]) =
     sent_bodies c @ (if bodyAllowedForStatus code then [obj] else [])"
  by (simp add: sent_bodies_append)


lemma sent_status_JSON:
  "sent_status (c @ [JSON code obj]) =
     (if rw_written (writer_of c) then sent_status c
      else Some (if 0 <s code then code else rw_status (writer_of c)))"
  by (simp add: sent_status_def writer_of_snoc WriteHeader_def)


section \<open>Emission\<close>

text \<open>
  C1, as stated: for every error input, \<open>ErrorResponse\<close> with a \<open>*ResponseError\<close>
  writes the error body at the HTTP status \<open>err.StatusCode\<close>. A nil
  \<open>*ResponseError\<close> passes the type assertion and the read of its \<open>StatusCode\<close>
  panics; and the status of an error value is whatever its constructor was given, so
  with 99 the write of the header panics and nothing is sent.
\<close>

theorem C1_nil_pointer_counterexample:
  "ErrorResponse empty_heap [] (ResponseErrorPtr None) = (empty_heap, Inl NilDereference)
   \<and> ErrorResponse (fst (NewResponseError empty_heap ''TOO_LOW'' ''low'' 99)) []
         (ResponseErrorPtr (snd (NewResponseError empty_heap ''TOO_LOW'' ''low'' 99)))
       = (fst (NewResponseError empty_heap ''TOO_LOW'' ''low'' 99),
          Inl InvalidWriteHeaderCode)"
  by (simp add: ErrorResponse_def NewResponseError_def Let_def c_JSON_eq header_panics_fresh
      word_sless_alt)

text \<open>
  C1, amended: on a response whose header is not yet written, \<open>ErrorResponse(ctx, err)\<close>
  with \<open>err\<close> a non-nil \<open>*ResponseError\<close> whose \<open>StatusCode\<close> is an HTTP status
  that carries a body (from 200 to 999, other than 204 and 304) writes the body
  \<open>{success: false, error: {code, message, details}}\<close> taken from the fields of
  \<open>err\<close> at the HTTP status \<open>err.StatusCode\<close>; for every error of another type it
  writes \<open>{success: false, error: {code: "INTERNAL_SERVER_ERROR", message: "An
  unexpected error occurred", details: {error: err's message}}}\<close> at status 500.
\<close>

theorem C1_error_response:
  assumes "\<not> rw_written (writer_of c)"
  shows
  "(200 \<le>s StatusCode (objs h p) \<and> StatusCode (objs h p) \<le>s 999
      \<and> StatusCode (objs h p) \<noteq> 204 \<and> StatusCode (objs h p) \<noteq> 304 \<longrightarrow>
     (let obj = ResponseBody \<lparr>R_Success = False, R_Data = ANil,
            R_Error = AMap (Some
              [''code'' \<mapsto> AString (Code (objs h p)),
               ''message'' \<mapsto> AString (Message (objs h p)),
               ''details'' \<mapsto> AMap (map_option (maps h) (Details (objs h p)))]),
            R_Message = []\<rparr>;
          c' = c @ [JSON (StatusCode (objs h p)) obj]
      in ErrorResponse h c (ResponseErrorPtr (Some p)) = (h, Inr c')
         \<and> sent_status c' = Some (StatusCode (objs h p))
         \<and> sent_bodies c' = sent_bodies c @ [obj]))
   \<and> (let obj = ResponseBody \<lparr>R_Success = False, R_Data = ANil,
            R_Error = AMap (Some
              [''code'' \<mapsto> AString ''INTERNAL_SERVER_ERROR'',
               ''message'' \<mapsto> AString ''An unexpected error occurred'',
               ''details'' \<mapsto> AMap (Some [''error'' \<mapsto> AString msg])]),
            R_Message = []\<rparr>;
          c' = c @ [JSON 500 obj]
      in ErrorResponse h c (OtherError msg) = (h, Inr c')
         \<and> sent_status c' = Some 500
         \<and> sent_bodies c' = sent_bodies c @ [obj])"
proof -
  have ptr: "ErrorResponse h c (ResponseErrorPtr (Some p)) = (h, Inr (c @ [JSON code obj]))
      \<and> sent_status (c @ [JSON code obj]) = Some code
      \<and> sent_bodies (c @ [JSON code obj]) = sent_bodies c @ [obj]"
    if "200 \<le>s code" "code \<le>s 999" "code \<noteq> 204" "code \<noteq> 304"
      and code: "code = StatusCode (objs h p)"
      and obj: "obj = ResponseBody \<lparr>R_Success = False, R_Data = ANil,
            R_Error = AMap (Some
              [''code'' \<mapsto> AString (Code (objs h p)),
               ''message'' \<mapsto> AString (Message (objs h p)),
               ''details'' \<mapsto> AMap (map_option (maps h) (Details (objs h p)))]),
            R_Message = []\<rparr>"
    for code obj
  proof -
    have pos: "0 <s code" "100 \<le>s code"
      using that(1) by (simp_all add: word_sless_alt word_sle_eq)
    have "\<not> header_panics c code" using pos(2) that(2) by (rule valid_status_accepted)
    then have "ErrorResponse h c (ResponseErrorPtr (Some p)) = (h, Inr (c @ [JSON code obj]))"
      by (simp add: ErrorResponse_def c_JSON_eq code obj)
    moreover have "sent_status (c @ [JSON code obj]) = Some code"
      using assms pos(1) by (simp add: sent_status_JSON)
    moreover have "bodyAllowedForStatus code"
      using that(1,3,4) by (auto simp add: bodyAllowedForStatus_def word_sle_eq)
    then have "sent_bodies (c @ [JSON code obj]) = sent_bodies c @ [obj]"
      by (simp add: sent_bodies_JSON)
    ultimately show ?thesis by simp
  qed
  have other: "ErrorResponse h c (OtherError msg) = (h, Inr (c @ [JSON 500 obj]))
      \<and> sent_status (c @ [JSON 500 obj]) = Some 500
      \<and> sent_bodies (c @ [JSON 500 obj]) = sent_bodies c @ [obj]"
    if obj: "obj = ResponseBody \<lparr>R_Success = False, R_Data = ANil,
            R_Error = AMap (Some
              [''code'' \<mapsto> AString ''INTERNAL_SERVER_ERROR'',
               ''message'' \<mapsto> AString ''An unexpected error occurred'',
               ''details'' \<mapsto> AMap (Some [''error'' \<mapsto> AString msg])]),
            R_Message = []\<rparr>"
    for obj
  proof -
    have "ErrorResponse h c (OtherError msg) = (h, Inr (c @ [JSON 500 obj]))"
      using fixed_status_accepted(4) [of c]
      by (simp add: ErrorResponse_def err_Error_def c_JSON_eq obj
          StatusInternalServerError_def ErrCodeInternalServer_def)
    moreover have "sent_status (c @ [JSON 500 obj]) = Some 500"
      using assms by (simp add: sent_status_JSON word_sless_alt)
    moreover have "sent_bodies (c @ [JSON 500 obj]) = sent_bodies c @ [obj]"
      by (simp add: sent_bodies_JSON bodyAllowedForStatus_def word_sle_eq)
    ultimately show ?thesis by simp
  qed
  show ?thesis
    unfolding Let_def using ptr other by blast
qed

theorem C1_error_response_witness:
  "\<not> rw_written (writer_of [])
   \<and> 200 \<le>s StatusCode (objs (fst (Conflict empty_heap ''exists'')) 0)
   \<and> StatusCode (objs (fst (Conflict empty_heap ''exists'')) 0) \<le>s 999
   \<and> StatusCode (objs (fst (Conflict empty_heap ''exists'')) 0) \<noteq> 204
   \<and> StatusCode (objs (fst (Conflict empty_heap ''exists'')) 0) \<noteq> 304
   \<and> ErrorResponse (fst (Conflict empty_heap ''exists'')) [] (ResponseErrorPtr (Some 0)) =
       (fst (Conflict empty_heap ''exists''),
        Inr [JSON 409 (ResponseBody \<lparr>R_Success = False, R_Data = ANil,
            R_Error = AMap (Some
              [''code'' \<mapsto> AString ''CONFLICT'',
               ''message'' \<mapsto> AString ''exists'',
               ''details'' \<mapsto> AMap (Some Map.empty)]),
            R_Message = []\<rparr>)])
   \<and> sent_status [JSON 409 (ResponseBody \<lparr>R_Success = False, R_Data = ANil,
            R_Error = AMap (Some
              [''code'' \<mapsto> AString ''CONFLICT'',
               ''message'' \<mapsto> AString ''exists'',
               ''details'' \<mapsto> AMap (Some Map.empty)]),
            R_Message = []\<rparr>)] = Some 409
   \<and> ErrorResponse (fst (Conflict empty_heap ''exists'')) [] (OtherError ''boom'') =
       (fst (Conflict empty_heap ''exists''),
        Inr [JSON 500 (ResponseBody \<lparr>R_Success = False, R_Data = ANil,
            R_Error = AMap (Some
              [''code'' \<mapsto> AString ''INTERNAL_SERVER_ERROR'',
               ''message'' \<mapsto> AString ''An unexpected error occurred'',
               ''details'' \<mapsto> AMap (Some [''error'' \<mapsto> AString ''boom''])]),
            R_Message = []\<rparr>)])"
proof -
  have a: "\<not> rw_written (writer_of [])"
    by (simp add: writer_of_Nil new_responseWriter_def)
  have b: "objs (fst (Conflict empty_heap ''exists'')) 0 =
      \<lparr>Code = ''CONFLICT'', Message = ''exists'', StatusCode = 409, Details = Some 0\<rparr>"
    "maps (fst (Conflict empty_heap ''exists'')) 0 = Map.empty"
    by (simp_all add: Conflict_def NewResponseError_def Let_def empty_heap_def
        ErrCodeConflict_def StatusConflict_def)
  from C1_error_response [OF a, of "fst (Conflict empty_heap ''exists'')" 0 "''boom''"] a b
  show ?thesis
    by (simp add: Let_def word_sle_eq)
qed


text \<open>
  C9. Emission does not change the error value it is given: after
  \<open>ErrorResponse(ctx, err)\<close> with \<open>err\<close> a \<open>*ResponseError\<close>, the code, the
  message, the status and the contents of the details map of \<open>err\<close> are what they
  were, as is every other structure and map of the heap, whether the call returns or
  the write of the header panics; it returns unless that write panics.
\<close>

theorem C9_emission_keeps_error_value:
  "(\<exists>h' r. ErrorResponse h c (ResponseErrorPtr (Some p)) = (h', r)
      \<and> read_error h' (Some p) = read_error h (Some p)
      \<and> objs h' = objs h \<and> maps h' = maps h
      \<and> (if header_panics c (StatusCode (objs h p)) then r = Inl InvalidWriteHeaderCode
          else \<exists>c'. r = Inr c'))
   \<and> fst (ErrorResponse h c err) = h"
proof -
  have "fst (ErrorResponse h c err) = h"
    by (simp add: ErrorResponse_def split: error.splits option.splits sum.splits)
  then show ?thesis
    by (simp add: ErrorResponse_def c_JSON_eq)
qed

text \<open>
  C4, as stated: for every input \<open>ErrorResponse\<close> and every other emitter
  complete without a panic. The nil interface is a value of type \<open>error\<close>; the type
  assertion fails on it, and the fallback calls \<open>err.Error()\<close> on nil. And
  \<open>SuccessResponse\<close> hands its status to the response unchecked, where 1000 is
  refused with a panic.
\<close>

theorem C4_nil_error_counterexample:
  "ErrorResponse empty_heap [] NilError = (empty_heap, Inl NilDereference)
   \<and> SuccessResponse [] 1000 ANil [] = Inl InvalidWriteHeaderCode"
  by (simp add: ErrorResponse_def err_Error_def SuccessResponse_def c_JSON_eq
      header_panics_fresh word_sless_alt)

text \<open>
  C4, amended: \<open>ErrorResponse\<close> completes, with exactly one \<open>JSON\<close> call that
  carries a body whose \<open>success\<close> is false and a status, for every error argument
  that is not nil and whose status the response accepts; \<open>SuccessResponse\<close>
  completes, with exactly one \<open>JSON\<close> call, for every status the response accepts.
  The response accepts every status once its header is written; before that it accepts
  a status from 100 to 999, and a status of 0 or below when its pending status (200 on
  a fresh response) is from 100 to 999. The status 500 of the fallback is always
  accepted. On the nil interface and on a nil \<open>*ResponseError\<close> \<open>ErrorResponse\<close>
  panics with a nil dereference, and on a status that is not accepted both panic at the
  write of the header; nothing is written in either case. \<open>OKResponse\<close>,
  \<open>CreatedResponse\<close>, \<open>UpdatedResponse\<close> and \<open>ListResponseWithPagination\<close>
  complete for all their arguments with exactly one \<open>JSON\<close> call, and
  \<open>NoContentResponse\<close> with the status 204 alone.
\<close>

theorem C4_emission_total_on_errors:
  "(if nil_error err then ErrorResponse h c err = (h, Inl NilDereference)
    else if header_panics c (response_status h err)
    then ErrorResponse h c err = (h, Inl InvalidWriteHeaderCode)
    else \<exists>obj. ErrorResponse h c err =
                 (h, Inr (c @ [JSON (response_status h err) (ResponseBody obj)]))
           \<and> R_Success obj = False)
   \<and> header_panics c code =
       (\<not> rw_written (writer_of c) \<and>
        (if 0 <s code then code <s 100 \<or> 999 <s code
         else rw_status (writer_of c) <s 100 \<or> 999 <s rw_status (writer_of c)))
   \<and> header_panics [] code = (0 <s code \<and> (code <s 100 \<or> 999 <s code))
   \<and> response_status h (OtherError msg) = 500
   \<and> \<not> header_panics c 500
   \<and> SuccessResponse c statusCode data message =
       (if header_panics c statusCode then Inl InvalidWriteHeaderCode
        else Inr (c @ [JSON statusCode (ResponseBody \<lparr>R_Success = True, R_Data = data,
                                          R_Error = ANil, R_Message = message\<rparr>)]))
   \<and> (\<exists>obj. OKResponse c data message = Inr (c @ [JSON 200 (ResponseBody obj)]))
   \<and> (\<exists>obj. CreatedResponse c data message = Inr (c @ [JSON 201 (ResponseBody obj)]))
   \<and> (\<exists>obj. UpdatedResponse c data message = Inr (c @ [JSON 202 (ResponseBody obj)]))
   \<and> (\<exists>obj. ListResponseWithPagination c data pagination =
              Inr (c @ [JSON 200 (ListResponseBody obj)]))
   \<and> NoContentResponse c = c @ [Status 204]"
proof -
  have err: "if nil_error err then ErrorResponse h c err = (h, Inl NilDereference)
    else if header_panics c (response_status h err)
    then ErrorResponse h c err = (h, Inl InvalidWriteHeaderCode)
    else \<exists>obj. ErrorResponse h c err =
                 (h, Inr (c @ [JSON (response_status h err) (ResponseBody obj)]))
           \<and> R_Success obj = False"
  proof (cases err)
    case NilError
    then show ?thesis by (simp add: nil_error_def ErrorResponse_def err_Error_def)
  next
    case (ResponseErrorPtr e)
    then show ?thesis
      by (cases e)
        (simp_all add: nil_error_def ErrorResponse_def c_JSON_eq response_status_def)
  next
    case (OtherError s)
    then show ?thesis
      by (simp add: nil_error_def ErrorResponse_def err_Error_def c_JSON_eq
          response_status_def)
  qed
  have success: "SuccessResponse c statusCode data message =
       (if header_panics c statusCode then Inl InvalidWriteHeaderCode
        else Inr (c @ [JSON statusCode (ResponseBody \<lparr>R_Success = True, R_Data = data,
                                          R_Error = ANil, R_Message = message\<rparr>)]))"
    by (simp add: SuccessResponse_def c_JSON_eq)
  have fixed: "\<exists>obj. OKResponse c data message = Inr (c @ [JSON 200 (ResponseBody obj)])"
    "\<exists>obj. CreatedResponse c data message = Inr (c @ [JSON 201 (ResponseBody obj)])"
    "\<exists>obj. UpdatedResponse c data message = Inr (c @ [JSON 202 (ResponseBody obj)])"
    "\<exists>obj. ListResponseWithPagination c data pagination =
              Inr (c @ [JSON 200 (ListResponseBody obj)])"
    "NoContentResponse c = c @ [Status 204]"
    by (simp_all add: OKResponse_def CreatedResponse_def UpdatedResponse_def
        SuccessResponse_def ListResponseWithPagination_def NoContentResponse_def c_Status_def
        c_JSON_eq http_status_defs fixed_status_accepted)
  have st: "response_status h (OtherError msg) = 500"
    by (simp add: response_status_def StatusInternalServerError_def)
  show ?thesis
    using err success fixed st header_panics_eq [of c code] header_panics_fresh [of code]
      fixed_status_accepted(4) [of c]
    by (simp only: simp_thms)
qed

section \<open>Error values on the heap\<close>

lemma made_NewResponseError:
  "made (NewResponseError h code message statusCode) =
     Some (code, statusCode, message, Some Map.empty)"
  by (simp add: made_def read_error_def NewResponseError_def Let_def)

lemma initialised_NewResponseError:
  "made_initialised (NewResponseError h code message statusCode)"
  by (simp add: made_initialised_def details_initialised_def NewResponseError_def Let_def)

lemma NewResponseError_keeps_allocated:
  "allocated h err \<Longrightarrow> err_Error (fst (NewResponseError h code message statusCode)) err
     = err_Error h err"
  by (auto simp add: allocated_def err_Error_def ResponseError_Error_def NewResponseError_def
      Let_def split: error.splits option.splits)

lemma WithDetails_initialised:
  assumes "read_error h e = Some (code, status, msg, Some d)"
  shows "\<exists>h'. WithDetails h e k v = Inr (h', e)
           \<and> read_error h' e = Some (code, status, msg, Some (d(k \<mapsto> v)))"
  using assms
  by (auto simp add: read_error_def WithDetails_def split: option.splits)

lemma initialised_read_error:
  "details_initialised h e =
     (\<exists>code status msg d. read_error h e = Some (code, status, msg, Some d))"
  by (auto simp add: details_initialised_def read_error_def split: option.splits)

lemma read_error_initialised:
  "read_error h e = Some (code, status, msg, Some d) \<Longrightarrow> details_initialised h e"
  using initialised_read_error by blast

lemma WithDetails_keeps_initialised:
  assumes "details_initialised h e"
  shows "\<exists>h'. WithDetails h e k v = Inr (h', e) \<and> details_initialised h' e"
proof -
  obtain code status msg d where "read_error h e = Some (code, status, msg, Some d)"
    using assms initialised_read_error by blast
  from WithDetails_initialised [OF this, of k v] show ?thesis
    using read_error_initialised by blast
qed

lemma WithDetails_chain_succeeds:
  "details_initialised h e \<Longrightarrow>
     \<exists>h'. WithDetails_chain h e kvs = Inr (h', e) \<and> details_initialised h' e"
proof (induction kvs arbitrary: h)
  case Nil
  then show ?case by simp
next
  case (Cons kv kvs)
  obtain k v where kv: "kv = (k, v)" by (cases kv)
  obtain h1 where h1: "WithDetails h e k v = Inr (h1, e)" "details_initialised h1 e"
    using WithDetails_keeps_initialised [OF Cons.prems] by blast
  from Cons.IH [OF h1(2)] show ?case using kv h1(1) by simp
qed

lemma DatabaseError_made:
  assumes "allocated h err" and "err_Error h err = Inr msg"
  shows "\<exists>r. DatabaseError h err = Inr r
           \<and> made r = Some (''DATABASE_ERROR'', 500, ''Database operation failed'',
                             Some [''error'' \<mapsto> AString msg])"
proof -
  obtain h1 e1 where r: "NewResponseError h ErrCodeDatabase ''Database operation failed''
      StatusInternalServerError = (h1, e1)"
    by fastforce
  have m: "read_error h1 e1 =
             Some (''DATABASE_ERROR'', 500, ''Database operation failed'', Some Map.empty)"
    using made_NewResponseError [of h ErrCodeDatabase "''Database operation failed''"
        StatusInternalServerError] r
    by (simp add: made_def ErrCodeDatabase_def StatusInternalServerError_def)
  have e: "err_Error h1 err = Inr msg"
    using NewResponseError_keeps_allocated [OF assms(1), of ErrCodeDatabase
        "''Database operation failed''" StatusInternalServerError] r assms(2)
    by simp
  obtain h' where "WithDetails h1 e1 ''error'' (AString msg) = Inr (h', e1)"
    "read_error h' e1 = Some (''DATABASE_ERROR'', 500, ''Database operation failed'',
        Some [''error'' \<mapsto> AString msg])"
    using WithDetails_initialised [OF m] by blast
  then show ?thesis
    by (simp add: DatabaseError_def r e made_def)
qed

lemma made_factories:
  "made (BadRequest h message) = Some (''BAD_REQUEST'', 400, message, Some Map.empty)"
  "made (Unauthorized h message) = Some (''UNAUTHORIZED'', 401, message, Some Map.empty)"
  "made (Forbidden h message) = Some (''FORBIDDEN'', 403, message, Some Map.empty)"
  "made (NotFound h resource) =
     Some (''NOT_FOUND'', 404, resource @ '' not found'', Some Map.empty)"
  "made (Conflict h message) = Some (''CONFLICT'', 409, message, Some Map.empty)"
  "made (ValidationError h message) =
     Some (''VALIDATION_ERROR'', 400, message, Some Map.empty)"
  "made (InternalServerError h message) =
     Some (''INTERNAL_SERVER_ERROR'', 500, message, Some Map.empty)"
  "made (InvalidInput h field reason) =
     Some (''INVALID_INPUT'', 400,
           ''Invalid input for field '' @ [CHR 0x27] @ field @ [CHR 0x27] @ '': '' @ reason,
           Some Map.empty)"
  "made (MissingHeader h header) =
     Some (''MISSING_HEADER'', 400, ''Missing required header: '' @ header, Some Map.empty)"
  "made (InvalidUUID h field) =
     Some (''INVALID_UUID'', 400,
           ''Invalid UUID format for field '' @ [CHR 0x27] @ field @ [CHR 0x27],
           Some Map.empty)"
  "made (DuplicateEntry h resource) =
     Some (''DUPLICATE_ENTRY'', 409, resource @ '' already exists'', Some Map.empty)"
  "made (ForeignKeyViolation h message) =
     Some (''FOREIGN_KEY_VIOLATION'', 400, message, Some Map.empty)"
  "made (UnauthorizedError h message) =
     Some (''UNAUTHORIZED'', 401, message, Some Map.empty)"
  "made (VersionExistsError h versionNumber) =
     Some (''CONFLICT'', 409, ''Version '' @ versionNumber @ '' already exists'',
           Some Map.empty)"
  unfolding BadRequest_def Unauthorized_def Forbidden_def NotFound_def Conflict_def
    ValidationError_def InternalServerError_def InvalidInput_def MissingHeader_def
    InvalidUUID_def DuplicateEntry_def ForeignKeyViolation_def UnauthorizedError_def
    VersionExistsError_def made_NewResponseError
  by (simp_all add: err_code_defs http_status_defs)

lemma initialised_factories:
  "made_initialised (BadRequest h message)"
  "made_initialised (Unauthorized h message)"
  "made_initialised (Forbidden h message)"
  "made_initialised (NotFound h resource)"
  "made_initialised (Conflict h message)"
  "made_initialised (ValidationError h message)"
  "made_initialised (InternalServerError h message)"
  "made_initialised (InvalidInput h field reason)"
  "made_initialised (MissingHeader h header)"
  "made_initialised (InvalidUUID h field)"
  "made_initialised (DuplicateEntry h resource)"
  "made_initialised (ForeignKeyViolation h message)"
  "made_initialised (UnauthorizedError h message)"
  "made_initialised (VersionExistsError h versionNumber)"
  unfolding BadRequest_def Unauthorized_def Forbidden_def NotFound_def Conflict_def
    ValidationError_def InternalServerError_def InvalidInput_def MissingHeader_def
    InvalidUUID_def DuplicateEntry_def ForeignKeyViolation_def UnauthorizedError_def
    VersionExistsError_def
  by (rule initialised_NewResponseError)+

lemma made_imp_initialised:
  "made r = Some (code, status, msg, Some d) \<Longrightarrow> made_initialised r"
  unfolding made_def made_initialised_def by (rule read_error_initialised)

lemma zero_value_faults:
  "WithDetails (fst (new_zero_ResponseError h)) (snd (new_zero_ResponseError h)) k v
     = Inl NilMapAssignment"
  "\<not> made_initialised (new_zero_ResponseError h)"
  by (simp_all add: WithDetails_def new_zero_ResponseError_def zeroResponseError_def Let_def
      made_initialised_def details_initialised_def)

text \<open>
  C6. For every string argument each named factory returns an error value with the
  code, status and message of the factory table and an empty details map:
  \<open>NotFound(resource)\<close> gives \<open>NOT_FOUND\<close>, 404, \<open>"{resource} not found"\<close>,
  \<open>VersionExistsError(v)\<close> gives \<open>CONFLICT\<close>, 409, \<open>"Version {v} already exists"\<close>,
  and so on (\<open>CHR 0x27\<close> is the apostrophe of the two templates that quote the field).
  \<open>DatabaseError(err)\<close>, for an error \<open>err\<close> of the heap with a message, gives
  \<open>DATABASE_ERROR\<close>, 500, \<open>"Database operation failed"\<close> and a details map that
  holds exactly the message of \<open>err\<close> under \<open>"error"\<close>.
\<close>

theorem C6_factory_table:
  "made (BadRequest h message) = Some (''BAD_REQUEST'', 400, message, Some Map.empty)
   \<and> made (Unauthorized h message) = Some (''UNAUTHORIZED'', 401, message, Some Map.empty)
   \<and> made (Forbidden h message) = Some (''FORBIDDEN'', 403, message, Some Map.empty)
   \<and> made (NotFound h resource) =
       Some (''NOT_FOUND'', 404, resource @ '' not found'', Some Map.empty)
   \<and> made (Conflict h message) = Some (''CONFLICT'', 409, message, Some Map.empty)
   \<and> made (ValidationError h message) =
       Some (''VALIDATION_ERROR'', 400, message, Some Map.empty)
   \<and> made (InternalServerError h message) =
       Some (''INTERNAL_SERVER_ERROR'', 500, message, Some Map.empty)
   \<and> (allocated h err \<and> err_Error h err = Inr msg \<longrightarrow>
        (\<exists>r. DatabaseError h err = Inr r
           \<and> made r = Some (''DATABASE_ERROR'', 500, ''Database operation failed'',
                             Some [''error'' \<mapsto> AString msg])))
   \<and> made (InvalidInput h field reason) =
       Some (''INVALID_INPUT'', 400,
             ''Invalid input for field '' @ [CHR 0x27] @ field @ [CHR 0x27] @ '': '' @ reason,
             Some Map.empty)
   \<and> made (MissingHeader h header) =
       Some (''MISSING_HEADER'', 400, ''Missing required header: '' @ header, Some Map.empty)
   \<and> made (InvalidUUID h field) =
       Some (''INVALID_UUID'', 400,
             ''Invalid UUID format for field '' @ [CHR 0x27] @ field @ [CHR 0x27],
             Some Map.empty)
   \<and> made (DuplicateEntry h resource) =
       Some (''DUPLICATE_ENTRY'', 409, resource @ '' already exists'', Some Map.empty)
   \<and> made (ForeignKeyViolation h message) =
       Some (''FOREIGN_KEY_VIOLATION'', 400, message, Some Map.empty)
   \<and> made (UnauthorizedError h message) =
       Some (''UNAUTHORIZED'', 401, message, Some Map.empty)
   \<and> made (VersionExistsError h versionNumber) =
       Some (''CONFLICT'', 409, ''Version '' @ versionNumber @ '' already exists'',
             Some Map.empty)"
  using DatabaseError_made [of h err msg]
  by (simp only: made_factories simp_thms) blast


theorem C6_factory_table_witness:
  "allocated empty_heap (OtherError ''connection refused'')
   \<and> err_Error empty_heap (OtherError ''connection refused'') = Inr ''connection refused''
   \<and> (\<exists>r. DatabaseError empty_heap (OtherError ''connection refused'') = Inr r
          \<and> made r = Some (''DATABASE_ERROR'', 500, ''Database operation failed'',
                            Some [''error'' \<mapsto> AString ''connection refused'']))
   \<and> made (NotFound empty_heap ''User'') =
         Some (''NOT_FOUND'', 404, ''User not found'', Some Map.empty)
   \<and> made (VersionExistsError empty_heap ''1.2'') =
         Some (''CONFLICT'', 409, ''Version 1.2 already exists'', Some Map.empty)"
  using C6_factory_table [where h = empty_heap and resource = "''User''"
      and err = "OtherError ''connection refused''" and msg = "''connection refused''"
      and versionNumber = "''1.2''"]
  by (simp add: allocated_def err_Error_def)

text \<open>
  C7, as stated: for every error value \<open>WithDetails\<close> has no failure mode. The
  structure is exported, and on \<open>&ResponseError{}\<close> the details map is nil: the
  assignment to an entry of it is a run-time panic.
\<close>

theorem C7_zero_value_counterexample:
  "WithDetails (fst (new_zero_ResponseError empty_heap))
     (snd (new_zero_ResponseError empty_heap)) ''a'' (AInt 1) = Inl NilMapAssignment"
  by (simp add: WithDetails_def new_zero_ResponseError_def zeroResponseError_def
      empty_heap_def Let_def)

text \<open>
  C7, amended: for every error value \<open>e\<close> whose details map is initialised (as it is
  in every value made by \<open>NewResponseError\<close> or by a named factory), every key \<open>k\<close>
  and values \<open>v1\<close>, \<open>v2\<close>: \<open>WithDetails\<close> completes, sets \<open>details[k]\<close> to the
  given value and leaves the other entries and fields as they were, and returns the
  receiver itself; after \<open>e.WithDetails(k, v1).WithDetails(k, v2)\<close> the map is the
  original one with the single entry \<open>k \<mapsto> v2\<close> written over it.
\<close>

theorem C7_WithDetails_last_write_wins:
  assumes "read_error h e = Some (code, status, msg, Some d)"
  shows "\<exists>h1 h2. WithDetails h e k v1 = Inr (h1, e)
     \<and> read_error h1 e = Some (code, status, msg, Some (d(k \<mapsto> v1)))
     \<and> WithDetails h1 e k v2 = Inr (h2, e)
     \<and> read_error h2 e = Some (code, status, msg, Some (d(k \<mapsto> v2)))
     \<and> objs h2 = objs h"
proof -
  obtain h1 where h1: "WithDetails h e k v1 = Inr (h1, e)"
    "read_error h1 e = Some (code, status, msg, Some (d(k \<mapsto> v1)))"
    using WithDetails_initialised [OF assms] by blast
  obtain h2 where h2: "WithDetails h1 e k v2 = Inr (h2, e)"
    "read_error h2 e = Some (code, status, msg, Some ((d(k \<mapsto> v1))(k \<mapsto> v2)))"
    using WithDetails_initialised [OF h1(2)] by blast
  have "objs h1 = objs h" "objs h2 = objs h1"
    using h1(1) h2(1) by (auto simp add: WithDetails_def split: option.splits)
  then show ?thesis using h1 h2 by simp
qed

theorem C7_WithDetails_last_write_wins_witness:
  "read_error (fst (NewResponseError empty_heap ''CUSTOM_ERROR'' ''teapot'' 418))
     (snd (NewResponseError empty_heap ''CUSTOM_ERROR'' ''teapot'' 418))
     = Some (''CUSTOM_ERROR'', 418, ''teapot'', Some Map.empty)
   \<and> (\<exists>h1 h2.
        WithDetails (fst (NewResponseError empty_heap ''CUSTOM_ERROR'' ''teapot'' 418))
          (snd (NewResponseError empty_heap ''CUSTOM_ERROR'' ''teapot'' 418)) ''a'' (AInt 1)
          = Inr (h1, snd (NewResponseError empty_heap ''CUSTOM_ERROR'' ''teapot'' 418))
      \<and> WithDetails h1 (snd (NewResponseError empty_heap ''CUSTOM_ERROR'' ''teapot'' 418))
          ''a'' (AInt 2)
          = Inr (h2, snd (NewResponseError empty_heap ''CUSTOM_ERROR'' ''teapot'' 418))
      \<and> read_error h2 (snd (NewResponseError empty_heap ''CUSTOM_ERROR'' ''teapot'' 418))
          = Some (''CUSTOM_ERROR'', 418, ''teapot'', Some [''a'' \<mapsto> AInt 2]))"
proof -
  have a: "read_error (fst (NewResponseError empty_heap ''CUSTOM_ERROR'' ''teapot'' 418))
     (snd (NewResponseError empty_heap ''CUSTOM_ERROR'' ''teapot'' 418))
     = Some (''CUSTOM_ERROR'', 418, ''teapot'', Some Map.empty)"
    using made_NewResponseError [of empty_heap "''CUSTOM_ERROR''" "''teapot''" 418]
    by (simp only: made_def)
  from C7_WithDetails_last_write_wins [OF a, of "''a''" "AInt 1" "AInt 2"] a
  show ?thesis by blast
qed

text \<open>
  C10. Every error value made by \<open>NewResponseError\<close> or by a named factory has a
  details map that is not nil (and is empty for \<open>NewResponseError\<close>); \<open>WithDetails\<close>
  on a value with this property completes, returns the receiver and keeps the
  property, so a chain of \<open>WithDetails\<close> calls of any length on such a value
  completes. A \<open>ResponseError\<close> built as the bare zero value does not have the
  property, and \<open>WithDetails\<close> on it panics.
\<close>

theorem C10_details_initialised:
  "made (NewResponseError h code message statusCode) =
      Some (code, statusCode, message, Some Map.empty)
   \<and> made_initialised (NewResponseError h code message statusCode)
   \<and> made_initialised (BadRequest h message)
   \<and> made_initialised (Unauthorized h message)
   \<and> made_initialised (Forbidden h message)
   \<and> made_initialised (NotFound h resource)
   \<and> made_initialised (Conflict h message)
   \<and> made_initialised (ValidationError h message)
   \<and> made_initialised (InternalServerError h message)
   \<and> (case DatabaseError h err of Inl p \<Rightarrow> True | Inr r \<Rightarrow> made_initialised r)
   \<and> (\<exists>r. DatabaseError h (OtherError msg) = Inr r \<and> made_initialised r)
   \<and> made_initialised (InvalidInput h field reason)
   \<and> made_initialised (MissingHeader h header)
   \<and> made_initialised (InvalidUUID h field)
   \<and> made_initialised (DuplicateEntry h resource)
   \<and> made_initialised (ForeignKeyViolation h message)
   \<and> made_initialised (UnauthorizedError h message)
   \<and> made_initialised (VersionExistsError h versionNumber)
   \<and> (details_initialised h e \<longrightarrow>
        (\<exists>h'. WithDetails h e k v = Inr (h', e) \<and> details_initialised h' e))
   \<and> (details_initialised h e \<longrightarrow>
        (\<exists>h'. WithDetails_chain h e kvs = Inr (h', e) \<and> details_initialised h' e))
   \<and> \<not> made_initialised (new_zero_ResponseError h)
   \<and> WithDetails (fst (new_zero_ResponseError h)) (snd (new_zero_ResponseError h)) k v
       = Inl NilMapAssignment"
proof -
  have db: "case DatabaseError h err of Inl p \<Rightarrow> True | Inr r \<Rightarrow> made_initialised r"
  proof (cases "DatabaseError h err")
    case (Inl p)
    then show ?thesis by simp
  next
    case (Inr r)
    obtain h1 e1 where n: "NewResponseError h ErrCodeDatabase ''Database operation failed''
        StatusInternalServerError = (h1, e1)"
      by fastforce
    have i: "details_initialised h1 e1"
      using initialised_NewResponseError [of h ErrCodeDatabase "''Database operation failed''"
          StatusInternalServerError] n
      by (simp add: made_initialised_def)
    obtain s where s: "err_Error h1 err = Inr s"
      using Inr n by (cases "err_Error h1 err") (simp_all add: DatabaseError_def)
    obtain h' where "WithDetails h1 e1 ''error'' (AString s) = Inr (h', e1)"
      "details_initialised h' e1"
      using WithDetails_keeps_initialised [OF i] by blast
    then show ?thesis
      by (simp add: DatabaseError_def n s made_initialised_def)
  qed
  have other: "\<exists>r. DatabaseError h (OtherError msg) = Inr r \<and> made_initialised r"
    using DatabaseError_made [of h "OtherError msg" msg] made_imp_initialised
    by (fastforce simp add: allocated_def err_Error_def)
  show ?thesis
    using db other WithDetails_keeps_initialised [of h e k v]
      WithDetails_chain_succeeds [of h e kvs]
    by (simp only: made_NewResponseError initialised_NewResponseError initialised_factories
        zero_value_faults simp_thms) blast
qed

theorem C10_details_initialised_witness:
  "details_initialised (fst (NotFound empty_heap ''User'')) (snd (NotFound empty_heap ''User''))
   \<and> (\<exists>h'. WithDetails_chain (fst (NotFound empty_heap ''User''))
              (snd (NotFound empty_heap ''User''))
              [(''email'', AString ''required''), (''age'', AInt 18)]
            = Inr (h', snd (NotFound empty_heap ''User''))
          \<and> details_initialised h' (snd (NotFound empty_heap ''User'')))
   \<and> (\<exists>h'. WithDetails (fst (NotFound empty_heap ''User''))
              (snd (NotFound empty_heap ''User'')) ''email'' (AString ''required'')
            = Inr (h', snd (NotFound empty_heap ''User''))
          \<and> details_initialised h' (snd (NotFound empty_heap ''User'')))"
proof -
  have a: "details_initialised (fst (NotFound empty_heap ''User''))
      (snd (NotFound empty_heap ''User''))"
    by (simp add: details_initialised_def NotFound_def NewResponseError_def Let_def)
  from C10_details_initialised [where h = "fst (NotFound empty_heap ''User'')"
      and e = "snd (NotFound empty_heap ''User'')"
      and kvs = "[(''email'', AString ''required''), (''age'', AInt 18)]"
      and k = "''email''" and v = "AString ''required''"] a
  show ?thesis by blast
qed

end
